theory Spec2Isabelle
  imports Main "HOL-Library.Word" "HOL-Library.Signed_Division"
begin

unbundle bit_operations_syntax

section \<open>Values of the Go program\<close>

text \<open>
  The package \<open>pgxshard\<close> (file \<open>shardmanager.go\<close>) routes a key to one of a fixed
  sequence of connection pools.  Go's \<open>int\<close> is taken at its 64-bit size.  The only
  arithmetic the package does on an \<open>int\<close> is \<open>%\<close>, a comparison and \<open>len(..) - 1\<close>,
  none of which can leave the 64-bit range, so an \<open>int\<close> value is represented by the
  mathematical integer it denotes; keys keep the width of their Go type and are read
  with \<open>sint\<close>, which is what the conversion \<open>int(v)\<close> does.
\<close>

text \<open>
  A key has the dynamic type \<open>any\<close>.  The type switch of \<open>defaultShardIndexFunc\<close>
  distinguishes \<open>int\<close>, \<open>int32\<close>, \<open>int64\<close> and \<open>string\<close>; every other dynamic type
  (\<open>uint\<close>, \<open>[]byte\<close>, \<open>float64\<close>, \<open>nil\<close>, a named integer type, ...) is \<open>OtherKey\<close>,
  tagged with the name of that type.
\<close>

datatype key =
    IntKey "64 word"
  | Int32Key "32 word"
  | Int64Key "64 word"
  | StringKey string
  | OtherKey string

text \<open>
  Error values.  \<open>KeyTypeNotSupported\<close> is \<open>errors.New("shard key type not supported")\<close>,
  \<open>ConnectFailed i e\<close> is \<open>fmt.Errorf("failed to connect to shard %d: %v", i, e)\<close>,
  \<open>IndexOutOfRange i\<close> is \<open>fmt.Errorf("shard index %d is out of range", i)\<close>, and
  \<open>Foreign msg\<close> is an error made outside the package (by the pool library or by a
  caller-supplied strategy).
\<close>

datatype go_error =
    KeyTypeNotSupported
  | ConnectFailed nat go_error
  | IndexOutOfRange int
  | Foreign string

text \<open>A call either returns or ends in a run-time panic.\<close>

datatype panic = DivideByZero | NilDereference | IndexPanic

datatype 'a exec = Returns 'a | Panics panic

section \<open>CRC-32 (IEEE)\<close>

text \<open>
  \<open>crc32.ChecksumIEEE\<close> belongs to Go's standard library, not to the package.  It is
  represented by the bitwise definition of the checksum: reflected polynomial
  \<open>0xEDB88320\<close>, initial value and final complement \<open>0xFFFFFFFF\<close>.
\<close>

definition crc_shift :: "32 word \<Rightarrow> 32 word" where
  "crc_shift c = (if bit c 0 then drop_bit 1 c XOR 0xEDB88320 else drop_bit 1 c)"

definition crc_byte :: "32 word \<Rightarrow> char \<Rightarrow> 32 word" where
  "crc_byte c b = (crc_shift ^^ 8) (c XOR of_char b)"

definition ChecksumIEEE :: "string \<Rightarrow> 32 word" where
  "ChecksumIEEE bs = NOT (foldl crc_byte 0xFFFFFFFF bs)"

section \<open>The default routing strategy\<close>

text \<open>
  Go's \<open>a % b\<close> panics when \<open>b = 0\<close> and otherwise is the remainder of the division
  that truncates towards zero (\<open>smod\<close>): the result has the sign of \<open>a\<close>.
\<close>

definition go_rem :: "int \<Rightarrow> int \<Rightarrow> int exec" where
  "go_rem a b = (if b = 0 then Panics DivideByZero else Returns (a smod b))"

type_synonym strategy = "key \<Rightarrow> int \<Rightarrow> (int \<times> go_error option) exec"

fun with_nil_error :: "int exec \<Rightarrow> (int \<times> go_error option) exec" where
  "with_nil_error (Returns i) = Returns (i, None)"
| "with_nil_error (Panics p) = Panics p"

fun defaultShardIndexFunc :: strategy where
  "defaultShardIndexFunc (IntKey v) numShards = with_nil_error (go_rem (sint v) numShards)"
| "defaultShardIndexFunc (Int32Key v) numShards = with_nil_error (go_rem (sint v) numShards)"
| "defaultShardIndexFunc (Int64Key v) numShards = with_nil_error (go_rem (sint v) numShards)"
| "defaultShardIndexFunc (StringKey v) numShards =
     with_nil_error (go_rem (uint (ChecksumIEEE v)) numShards)"
| "defaultShardIndexFunc (OtherKey t) numShards = Returns (0, Some KeyTypeNotSupported)"

section \<open>The pool library\<close>

text \<open>
  \<open>pgxpool\<close> is an external library.  A pool is a handle: the number it was given
  when it was opened and the connection string it was opened for.  What the outside
  world answers is an \<open>env\<close>: for each connection string the error of
  \<open>pgxpool.New\<close>, for each pool the error of its \<open>Ping\<close> (\<open>None\<close> is Go's \<open>nil\<close>
  error).  What the package does to the outside world is recorded in a \<open>world\<close>:
  the next free handle, the pools that are open, and the calls made, in order.
\<close>

datatype pool = Pool nat string

record env =
  dial_error :: "string \<Rightarrow> go_error option"
  ping_error :: "pool \<Rightarrow> go_error option"

datatype event = EvNew string | EvPing pool | EvClose pool

record world =
  fresh :: nat
  live :: "pool list"
  log :: "event list"

definition pgxpool_New :: "env \<Rightarrow> string \<Rightarrow> world \<Rightarrow> (pool option \<times> go_error option) \<times> world" where
  "pgxpool_New e connStr w =
     (case dial_error e connStr of
        Some err \<Rightarrow> ((None, Some err), w\<lparr>log := log w @ [EvNew connStr]\<rparr>)
      | None \<Rightarrow>
          ((Some (Pool (fresh w) connStr), None),
           w\<lparr>fresh := Suc (fresh w),
             live := live w @ [Pool (fresh w) connStr],
             log := log w @ [EvNew connStr]\<rparr>))"

definition pool_Ping :: "env \<Rightarrow> pool \<Rightarrow> world \<Rightarrow> go_error option \<times> world" where
  "pool_Ping e p w = (ping_error e p, w\<lparr>log := log w @ [EvPing p]\<rparr>)"

definition pool_Close :: "pool \<Rightarrow> world \<Rightarrow> world" where
  "pool_Close p w = w\<lparr>live := removeAll p (live w), log := log w @ [EvClose p]\<rparr>"

section \<open>The shard manager\<close>

text \<open>
  The fields of \<open>ShardManager\<close>.  A \<open>*pgxpool.Pool\<close> and a function value may be
  \<open>nil\<close>, which is \<open>None\<close>.  The mutex \<open>mu\<close> is free whenever a call starts in a
  sequential run and every method that locks it releases it by a deferred \<open>Unlock\<close>,
  so it is not part of the sequential state; the locking of each method is the
  subject of the last section.
\<close>

record ShardManager =
  shards :: "pool option list"
  numShards :: int
  shardIndexFunc :: "strategy option"

text \<open>
  The loop of \<open>New\<close>: \<open>i\<close> is the loop index, the list holds the connection strings
  still to visit, \<open>arr\<close> is the local slice \<open>shards\<close>.  The first error ends the
  construction at once.  An assignment \<open>shards[i] = db\<close> outside the slice would panic.
\<close>

fun New_loop ::
  "env \<Rightarrow> nat \<Rightarrow> string list \<Rightarrow> pool option list \<Rightarrow> world
    \<Rightarrow> (go_error + pool option list) exec \<times> world" where
  "New_loop e i [] arr w = (Returns (Inr arr), w)"
| "New_loop e i (connStr # rest) arr w =
     (case pgxpool_New e connStr w of
        ((db, Some err), w') \<Rightarrow> (Returns (Inl (ConnectFailed i err)), w')
      | ((db, None), w') \<Rightarrow>
          if i < length arr then New_loop e (Suc i) rest (arr[i := db]) w'
          else (Panics IndexPanic, w'))"

definition New ::
  "env \<Rightarrow> string list \<Rightarrow> world \<Rightarrow> (ShardManager option \<times> go_error option) exec \<times> world" where
  "New e connectionStrings w =
     (case New_loop e 0 connectionStrings (replicate (length connectionStrings) None) w of
        (Returns (Inl err), w') \<Rightarrow> (Returns (None, Some err), w')
      | (Returns (Inr arr), w') \<Rightarrow>
          (Returns (Some \<lparr>shards = arr, numShards = int (length arr),
                           shardIndexFunc = Some defaultShardIndexFunc\<rparr>, None), w')
      | (Panics p, w') \<Rightarrow> (Panics p, w'))"

definition SetShardIndexFunc :: "ShardManager \<Rightarrow> strategy option \<Rightarrow> ShardManager" where
  "SetShardIndexFunc s f = s\<lparr>shardIndexFunc := f\<rparr>"

text \<open>
  \<open>Shard\<close> calls the strategy with \<open>numShards\<close>, hands its error on, and checks the
  index against the length of the slice before it reads the slice.
\<close>

definition Shard :: "ShardManager \<Rightarrow> key \<Rightarrow> (pool option \<times> go_error option) exec" where
  "Shard s k =
     (case shardIndexFunc s of
        None \<Rightarrow> Panics NilDereference
      | Some f \<Rightarrow>
          (case f k (numShards s) of
             Panics p \<Rightarrow> Panics p
           | Returns (index, Some err) \<Rightarrow> Returns (None, Some err)
           | Returns (index, None) \<Rightarrow>
               if index < 0 \<or> index > int (length (shards s)) - 1
               then Returns (None, Some (IndexOutOfRange index))
               else Returns (shards s ! nat index, None)))"

definition Shards :: "ShardManager \<Rightarrow> pool option list \<times> go_error option" where
  "Shards s = (shards s, None)"

fun Ping_loop :: "env \<Rightarrow> pool option list \<Rightarrow> world \<Rightarrow> go_error option exec \<times> world" where
  "Ping_loop e [] w = (Returns None, w)"
| "Ping_loop e (None # rest) w = (Panics NilDereference, w)"
| "Ping_loop e (Some shard # rest) w =
     (case pool_Ping e shard w of
        (Some err, w') \<Rightarrow> (Returns (Some err), w')
      | (None, w') \<Rightarrow> Ping_loop e rest w')"

definition Ping :: "env \<Rightarrow> ShardManager \<Rightarrow> world \<Rightarrow> go_error option exec \<times> world" where
  "Ping e s w = Ping_loop e (shards s) w"

fun Close_loop :: "pool option list \<Rightarrow> world \<Rightarrow> go_error option exec \<times> world" where
  "Close_loop [] w = (Returns None, w)"
| "Close_loop (None # rest) w = (Panics NilDereference, w)"
| "Close_loop (Some shard # rest) w = Close_loop rest (pool_Close shard w)"

definition Close :: "ShardManager \<Rightarrow> world \<Rightarrow> go_error option exec \<times> world" where
  "Close s w = Close_loop (shards s) w"

text \<open>The pools that \<open>n\<close> successful calls of \<open>pgxpool.New\<close> open, starting at handle \<open>h\<close>.\<close>

fun pools_from :: "nat \<Rightarrow> string list \<Rightarrow> pool list" where
  "pools_from h [] = []"
| "pools_from h (t # ts) = Pool h t # pools_from (Suc h) ts"

text \<open>A world in which nothing has happened yet, and three environments used as examples.\<close>

definition empty_world :: world where
  "empty_world = \<lparr>fresh = 0, live = [], log = []\<rparr>"

definition refuses_B :: env where
  "refuses_B =
     \<lparr>dial_error = (\<lambda>t. if t = ''B'' then Some (Foreign ''refused'') else None),
      ping_error = (\<lambda>p. None)\<rparr>"

definition ping_fails_first :: env where
  "ping_fails_first =
     \<lparr>dial_error = (\<lambda>t. None),
      ping_error = (\<lambda>p. if p = Pool 0 ''A'' then Some (Foreign ''timeout'') else None)\<rparr>"

definition ping_fails_second :: env where
  "ping_fails_second =
     \<lparr>dial_error = (\<lambda>t. None),
      ping_error = (\<lambda>p. if p = Pool 1 ''C'' then Some (Foreign ''timeout'') else None)\<rparr>"

definition two_shards :: ShardManager where
  "two_shards =
     \<lparr>shards = [Some (Pool 0 ''A''), Some (Pool 1 ''C'')], numShards = 2,
      shardIndexFunc = Some defaultShardIndexFunc\<rparr>"

section \<open>Locking\<close>

text \<open>
  What each method does to the mutex \<open>mu\<close> and to the fields of the manager, in program
  order.  \<open>SetShardIndexFunc\<close>, \<open>Shards\<close>, \<open>Ping\<close> and \<open>Close\<close> start with
  \<open>s.mu.Lock()\<close> and \<open>defer s.mu.Unlock()\<close>; \<open>Shard\<close> reads \<open>s.shardIndexFunc\<close> and
  \<open>s.numShards\<close> (line 69), then \<open>len(s.shards)\<close> (line 74) and \<open>s.shards[index]\<close>
  (line 78), and never touches \<open>mu\<close>.
\<close>

datatype field = F_shards | F_numShards | F_shardIndexFunc

datatype action = Lock | Unlock | Read field | Write field

definition SetShardIndexFunc_actions :: "action list" where
  "SetShardIndexFunc_actions = [Lock, Write F_shardIndexFunc, Unlock]"

definition Shard_actions :: "action list" where
  "Shard_actions = [Read F_shardIndexFunc, Read F_numShards, Read F_shards, Read F_shards]"

definition Shards_actions :: "action list" where
  "Shards_actions = [Lock, Read F_shards, Unlock]"

definition Ping_actions :: "action list" where
  "Ping_actions = [Lock, Read F_shards, Unlock]"

definition Close_actions :: "action list" where
  "Close_actions = [Lock, Read F_shards, Unlock]"

text \<open>\<open>guarded held as\<close>: every field access in \<open>as\<close> happens while the caller holds \<open>mu\<close>.\<close>

fun guarded :: "bool \<Rightarrow> action list \<Rightarrow> bool" where
  "guarded held [] = True"
| "guarded held (Lock # as) = guarded True as"
| "guarded held (Unlock # as) = guarded False as"
| "guarded held (Read f # as) = (held \<and> guarded held as)"
| "guarded held (Write f # as) = (held \<and> guarded held as)"

text \<open>
  Goroutines running side by side: the state is the goroutine that holds \<open>mu\<close>, if any,
  and for each goroutine the actions it still has to do.  \<open>Lock\<close> can only be taken
  when \<open>mu\<close> is free (\<open>sync.Mutex\<close> blocks otherwise); every other action can always
  be taken.  \<open>step t\<close> lets goroutine \<open>t\<close> do its next action and is \<open>None\<close> when it
  cannot; \<open>run\<close> follows a schedule.
\<close>

type_synonym config = "nat option \<times> action list list"

fun step :: "nat \<Rightarrow> config \<Rightarrow> config option" where
  "step t (holder, threads) =
     (if t < length threads then
        (case threads ! t of
           [] \<Rightarrow> None
         | Lock # rest \<Rightarrow>
             (if holder = None then Some (Some t, threads[t := rest]) else None)
         | Unlock # rest \<Rightarrow> Some (None, threads[t := rest])
         | a # rest \<Rightarrow> Some (holder, threads[t := rest]))
      else None)"

fun run :: "nat list \<Rightarrow> config \<Rightarrow> config option" where
  "run [] c = Some c"
| "run (t # ts) c = (case step t c of None \<Rightarrow> None | Some c' \<Rightarrow> run ts c')"

section \<open>Evaluation rules\<close>

lemma funpow_8: "(f ^^ 8) x = f (f (f (f (f (f (f (f x)))))))"
  by (simp add: eval_nat_numeral)

lemmas crc_eval = ChecksumIEEE_def crc_byte_def crc_shift_def funpow_8

text \<open>The standard check value of CRC-32/IEEE, and two more known values.\<close>

lemma ChecksumIEEE_check_value: "ChecksumIEEE ''123456789'' = 0xCBF43926"
  by (simp add: crc_eval)

lemma ChecksumIEEE_a: "ChecksumIEEE ''a'' = 0xE8B7BE43"
  by (simp add: crc_eval)

lemma ChecksumIEEE_empty: "ChecksumIEEE [] = 0"
  by (simp add: ChecksumIEEE_def)

section \<open>The remainder of a truncating division\<close>

lemma smod_nonneg:
  fixes v N :: int
  assumes "1 \<le> N" "0 \<le> v"
  shows "v smod N = v mod N"
  using assms by (simp add: smod_int_alt_def sgn_if)

lemma smod_neg:
  fixes v N :: int
  assumes "1 \<le> N" "v < 0"
  shows "v smod N = - ((- v) mod N)"
  using assms by (simp add: smod_int_alt_def sgn_if)

lemma go_rem_pos: "1 \<le> N \<Longrightarrow> go_rem v N = Returns (v smod N)"
  by (simp add: go_rem_def)

section \<open>Routing\<close>

text \<open>
  C1.  \<open>New\<close> on an empty sequence of targets returns a manager with no shards and
  \<open>numShards = 0\<close>.  On that manager a lookup with an integer key or with a text key
  does not fail with a routing error: the default strategy evaluates \<open>v % 0\<close>, and the
  call ends in the run-time panic "integer divide by zero".
\<close>

theorem empty_manager_lookup_divides_by_zero:
  "New e [] w =
     (Returns (Some \<lparr>shards = [], numShards = 0,
                     shardIndexFunc = Some defaultShardIndexFunc\<rparr>, None), w)
   \<and> Shard \<lparr>shards = [], numShards = 0, shardIndexFunc = Some defaultShardIndexFunc\<rparr>
        (IntKey 7) = Panics DivideByZero
   \<and> Shard \<lparr>shards = [], numShards = 0, shardIndexFunc = Some defaultShardIndexFunc\<rparr>
        (StringKey ''user-42'') = Panics DivideByZero"
  by (simp add: New_def Shard_def go_rem_def)

text \<open>
  C2, as the code has it.  For a shard count \<open>N \<ge> 1\<close> and an integer key of type
  \<open>int\<close>, \<open>int32\<close> or \<open>int64\<close> with value \<open>v\<close>, the default strategy returns, with
  no error, the remainder \<open>v smod N\<close> of the truncating division.  For \<open>v \<ge> 0\<close> this
  is \<open>v mod N\<close> and lies in \<open>[0, N)\<close>; for \<open>v < 0\<close> it is \<open>- ((- v) mod N)\<close> and lies
  in \<open>(- N, 0]\<close>.
\<close>

theorem default_integer_key_truncated_remainder:
  assumes "1 \<le> N"
  shows "defaultShardIndexFunc (IntKey a) N = Returns (sint a smod N, None)
       \<and> defaultShardIndexFunc (Int32Key b) N = Returns (sint b smod N, None)
       \<and> defaultShardIndexFunc (Int64Key c) N = Returns (sint c smod N, None)
       \<and> (0 \<le> v \<longrightarrow> v smod N = v mod N \<and> 0 \<le> v smod N \<and> v smod N < N)
       \<and> (v < 0 \<longrightarrow> v smod N = - ((- v) mod N) \<and> - N < v smod N \<and> v smod N \<le> 0)"
proof -
  have pos: "0 < N" using assms by simp
  have nonneg: "0 \<le> v \<longrightarrow> v smod N = v mod N \<and> 0 \<le> v smod N \<and> v smod N < N"
    using assms pos by (simp add: smod_nonneg)
  have bound: "(- v) mod N < N" "0 \<le> (- v) mod N"
    using pos by simp_all
  have neg: "v < 0 \<longrightarrow> v smod N = - ((- v) mod N) \<and> - N < v smod N \<and> v smod N \<le> 0"
    using assms bound by (simp add: smod_neg)
  show ?thesis
    using assms nonneg neg by (simp add: go_rem_pos)
qed

theorem default_integer_key_truncated_remainder_witness:
  "defaultShardIndexFunc (IntKey 7) 3 = Returns (1, None)
   \<and> defaultShardIndexFunc (Int32Key (- 7)) 3 = Returns (- 1, None)
   \<and> defaultShardIndexFunc (Int64Key 9) 3 = Returns (0, None)
   \<and> (7 :: int) smod 3 = 1 \<and> (- 7 :: int) smod 3 = - 1"
  using default_integer_key_truncated_remainder [of 3 7 "- 7" 9 7]
    default_integer_key_truncated_remainder [of 3 7 "- 7" 9 "- 7"]
  by simp

text \<open>
  C2 as stated fails for a negative key: with three shards the key \<open>-7\<close> gets the
  index \<open>-1\<close>, which is below 0 and is not \<open>-7 mod 3 = 2\<close>.
\<close>

theorem default_negative_key_index_negative:
  "defaultShardIndexFunc (IntKey (- 7)) 3 = Returns (- 1, None)
   \<and> \<not> (0 \<le> (- 1 :: int)) \<and> (- 7 :: int) mod 3 = 2"
  by (simp add: go_rem_def)

text \<open>
  C4.  For a text key \<open>s\<close> and a shard count \<open>N \<ge> 1\<close> the default strategy returns,
  with no error, the CRC-32/IEEE checksum of the bytes of \<open>s\<close>, read as an unsigned
  number, modulo \<open>N\<close>; the index lies in \<open>[0, N)\<close>.  The strategy is a function of the
  key and \<open>N\<close> alone, so the same key and \<open>N\<close> give the same index at every call.
\<close>

theorem default_string_key_crc32_mod:
  assumes "1 \<le> N"
  shows "defaultShardIndexFunc (StringKey s) N = Returns (uint (ChecksumIEEE s) mod N, None)
       \<and> 0 \<le> uint (ChecksumIEEE s) mod N \<and> uint (ChecksumIEEE s) mod N < N"
proof -
  have "0 \<le> uint (ChecksumIEEE s)" by simp
  then have "uint (ChecksumIEEE s) smod N = uint (ChecksumIEEE s) mod N"
    using assms by (simp add: smod_nonneg)
  moreover have "0 < N" using assms by simp
  ultimately show ?thesis using assms by (simp add: go_rem_pos)
qed

theorem default_string_key_crc32_mod_witness:
  "defaultShardIndexFunc (StringKey ''user-42'') 2 = Returns (1, None)"
  using default_string_key_crc32_mod [of 2 "''user-42''"] by (simp add: crc_eval)

text \<open>
  C9.  For a key of any dynamic type other than \<open>int\<close>, \<open>int32\<close>, \<open>int64\<close> and
  \<open>string\<close> the default strategy fails with the error "shard key type not
  supported", whatever the shard count, and \<open>Shard\<close> on a manager that uses the default
  strategy returns that error and no pool.
\<close>

theorem unsupported_key_type:
  assumes "shardIndexFunc m = Some defaultShardIndexFunc"
  shows "defaultShardIndexFunc (OtherKey t) N = Returns (0, Some KeyTypeNotSupported)
       \<and> Shard m (OtherKey t) = Returns (None, Some KeyTypeNotSupported)"
  using assms by (simp add: Shard_def)

theorem unsupported_key_type_witness:
  "defaultShardIndexFunc (OtherKey ''float64'') 2 = Returns (0, Some KeyTypeNotSupported)
   \<and> Shard two_shards (OtherKey ''float64'') = Returns (None, Some KeyTypeNotSupported)"
  using unsupported_key_type [of two_shards "''float64''" 2]
  by (simp add: two_shards_def)

text \<open>
  C3.  On a manager whose \<open>numShards\<close> is the length of its shard sequence (so it is
  for every manager that \<open>New\<close> returns, and \<open>SetShardIndexFunc\<close> changes neither
  field), if the active strategy,
  default or custom, returns without error an index \<open>i\<close> outside \<open>[0, numShards)\<close>,
  then \<open>Shard\<close> returns no pool and the error "shard index i is out of range", with
  the index as the strategy gave it.
\<close>

theorem Shard_rejects_out_of_range_index:
  assumes "numShards m = int (length (shards m))"
    and "shardIndexFunc m = Some f"
    and "f k (numShards m) = Returns (i, None)"
    and "i < 0 \<or> numShards m \<le> i"
  shows "Shard m k = Returns (None, Some (IndexOutOfRange i))"
  using assms by (auto simp: Shard_def)

theorem Shard_rejects_out_of_range_index_witness:
  "Shard (SetShardIndexFunc two_shards (Some (\<lambda>k n. Returns (5, None)))) (IntKey 1)
     = Returns (None, Some (IndexOutOfRange 5))
   \<and> Shard two_shards (IntKey (- 7)) = Returns (None, Some (IndexOutOfRange (- 1)))"
  using Shard_rejects_out_of_range_index
      [of "SetShardIndexFunc two_shards (Some (\<lambda>k n. Returns (5, None)))"
          "\<lambda>k n. Returns (5, None)" "IntKey 1" 5]
    Shard_rejects_out_of_range_index
      [of two_shards defaultShardIndexFunc "IntKey (- 7)" "- 1"]
  by (simp add: two_shards_def SetShardIndexFunc_def go_rem_def)

text \<open>An index inside the range selects the shard at that index.\<close>

lemma Shard_in_range:
  assumes "shardIndexFunc m = Some f"
    and "f k (numShards m) = Returns (i, None)"
    and "0 \<le> i" "i < int (length (shards m))"
  shows "Shard m k = Returns (shards m ! nat i, None)"
  using assms by (auto simp: Shard_def)

lemma Shard_example: "Shard two_shards (IntKey 7) = Returns (Some (Pool 1 ''C''), None)"
  by (simp add: Shard_def two_shards_def go_rem_def)

text \<open>Replacing the strategy changes no other field, and so not what \<open>Shards\<close> returns.\<close>

lemma SetShardIndexFunc_fields:
  "shards (SetShardIndexFunc m f) = shards m
   \<and> numShards (SetShardIndexFunc m f) = numShards m
   \<and> shardIndexFunc (SetShardIndexFunc m f) = f
   \<and> Shards (SetShardIndexFunc m f) = Shards m"
  by (simp add: SetShardIndexFunc_def Shards_def)

text \<open>An error of the strategy is handed on, whatever index came with it.\<close>

lemma Shard_strategy_error:
  assumes "shardIndexFunc m = Some f"
    and "f k (numShards m) = Returns (i, Some err)"
  shows "Shard m k = Returns (None, Some err)"
  using assms by (simp add: Shard_def)

section \<open>Construction\<close>

lemma length_pools_from [simp]: "length (pools_from h ts) = length ts"
  by (induction ts arbitrary: h) simp_all

lemma nth_pools_from: "i < length ts \<Longrightarrow> pools_from h ts ! i = Pool (h + i) (ts ! i)"
proof (induction ts arbitrary: h i)
  case Nil
  then show ?case by simp
next
  case (Cons t ts)
  then show ?case by (cases i) simp_all
qed

text \<open>The loop, when every remaining target can be reached.\<close>

lemma New_loop_all_reachable:
  assumes "\<forall>t \<in> set ts. dial_error e t = None"
    and "i + length ts = length arr"
  shows "New_loop e i ts arr w =
     (Returns (Inr (take i arr @ map Some (pools_from (fresh w) ts))),
      w\<lparr>fresh := fresh w + length ts,
        live := live w @ pools_from (fresh w) ts,
        log := log w @ map EvNew ts\<rparr>)"
  using assms
proof (induction ts arbitrary: i arr w)
  case Nil
  then show ?case by simp
next
  case (Cons t ts)
  from Cons.prems have lt: "i < length arr" and reach: "dial_error e t = None"
    and rest: "\<forall>t \<in> set ts. dial_error e t = None"
    and len: "Suc i + length ts = length (arr[i := Some (Pool (fresh w) t)])"
    by simp_all
  have tk: "take (Suc i) (arr[i := Some (Pool (fresh w) t)]) = take i arr @ [Some (Pool (fresh w) t)]"
    using lt by (simp add: take_Suc_conv_app_nth)
  show ?case
    using lt reach Cons.IH [OF rest len] tk
    by (simp add: pgxpool_New_def)
qed

text \<open>The loop, when the target at offset \<open>p\<close> is the first that cannot be reached.\<close>

lemma New_loop_first_unreachable:
  assumes "p < length ts"
    and "dial_error e (ts ! p) = Some cause"
    and "\<forall>j < p. dial_error e (ts ! j) = None"
    and "i + length ts = length arr"
  shows "New_loop e i ts arr w =
     (Returns (Inl (ConnectFailed (i + p) cause)),
      w\<lparr>fresh := fresh w + p,
        live := live w @ pools_from (fresh w) (take p ts),
        log := log w @ map EvNew (take (Suc p) ts)\<rparr>)"
  using assms
proof (induction ts arbitrary: i arr w p)
  case Nil
  then show ?case by simp
next
  case (Cons t ts)
  show ?case
  proof (cases p)
    case 0
    with Cons.prems show ?thesis by (simp add: pgxpool_New_def)
  next
    case (Suc q)
    from Cons.prems Suc have lt: "i < length arr" and reach: "dial_error e t = None"
      and q: "q < length ts" and fail: "dial_error e (ts ! q) = Some cause"
      and len: "Suc i + length ts = length (arr[i := Some (Pool (fresh w) t)])"
      by auto
    have before: "\<forall>j < q. dial_error e (ts ! j) = None"
    proof (intro allI impI)
      fix j assume "j < q"
      then have "Suc j < p" using Suc by simp
      with Cons.prems(3) have "dial_error e ((t # ts) ! Suc j) = None" by blast
      then show "dial_error e (ts ! j) = None" by simp
    qed
    show ?thesis
      using lt reach Suc Cons.IH [OF q fail before len]
      by (simp add: pgxpool_New_def)
  qed
qed

text \<open>
  C5.  When every one of the \<open>K\<close> targets can be reached, \<open>New\<close> returns, with no
  error, a manager whose shard sequence holds exactly the \<open>K\<close> pools it opened, in the
  order of the targets (shard \<open>i\<close> is the \<open>i\<close>-th pool opened, for target \<open>i\<close>), whose
  \<open>numShards\<close> is \<open>K\<close> and whose strategy is the default one; it has called
  \<open>pgxpool.New\<close> once per target, in order.  \<open>Shards\<close> returns that sequence, with no
  error; a lookup does not change the manager, so it does so after any lookups.
\<close>

theorem New_all_reachable:
  assumes "\<forall>t \<in> set targets. dial_error e t = None"
  shows "New e targets w =
     (Returns (Some \<lparr>shards = map Some (pools_from (fresh w) targets),
                     numShards = int (length targets),
                     shardIndexFunc = Some defaultShardIndexFunc\<rparr>, None),
      w\<lparr>fresh := fresh w + length targets,
        live := live w @ pools_from (fresh w) targets,
        log := log w @ map EvNew targets\<rparr>)
   \<and> length (pools_from (fresh w) targets) = length targets
   \<and> (\<forall>i < length targets. pools_from (fresh w) targets ! i = Pool (fresh w + i) (targets ! i))
   \<and> Shards \<lparr>shards = map Some (pools_from (fresh w) targets),
              numShards = int (length targets),
              shardIndexFunc = Some defaultShardIndexFunc\<rparr>
       = (map Some (pools_from (fresh w) targets), None)"
proof -
  have "New_loop e 0 targets (replicate (length targets) None) w =
     (Returns (Inr (map Some (pools_from (fresh w) targets))),
      w\<lparr>fresh := fresh w + length targets,
        live := live w @ pools_from (fresh w) targets,
        log := log w @ map EvNew targets\<rparr>)"
    using New_loop_all_reachable [OF assms, of 0 "replicate (length targets) None" w]
    by simp
  then show ?thesis
    by (simp add: New_def Shards_def nth_pools_from)
qed

theorem New_all_reachable_witness:
  "New refuses_B [''A'', ''C''] empty_world =
     (Returns (Some two_shards, None),
      \<lparr>fresh = 2, live = [Pool 0 ''A'', Pool 1 ''C''], log = [EvNew ''A'', EvNew ''C'']\<rparr>)
   \<and> Shards two_shards = ([Some (Pool 0 ''A''), Some (Pool 1 ''C'')], None)"
  using New_all_reachable [of "[''A'', ''C'']" refuses_B empty_world]
  by (simp add: refuses_B_def empty_world_def two_shards_def)

text \<open>
  C6.  When the target at position \<open>p\<close> (counted from 0) is the first that cannot be
  reached, with cause \<open>cause\<close>, \<open>New\<close> returns no manager and the error "failed to
  connect to shard p: cause".  It has called \<open>pgxpool.New\<close> for the targets
  \<open>0, ..., p\<close> and for no later one.
\<close>

theorem New_first_unreachable:
  assumes "p < length targets"
    and "dial_error e (targets ! p) = Some cause"
    and "\<forall>j < p. dial_error e (targets ! j) = None"
  shows "New e targets w =
     (Returns (None, Some (ConnectFailed p cause)),
      w\<lparr>fresh := fresh w + p,
        live := live w @ pools_from (fresh w) (take p targets),
        log := log w @ map EvNew (take (Suc p) targets)\<rparr>)"
proof -
  have "New_loop e 0 targets (replicate (length targets) None) w =
     (Returns (Inl (ConnectFailed p cause)),
      w\<lparr>fresh := fresh w + p,
        live := live w @ pools_from (fresh w) (take p targets),
        log := log w @ map EvNew (take (Suc p) targets)\<rparr>)"
    using New_loop_first_unreachable [OF assms, of 0 "replicate (length targets) None" w]
    by simp
  then show ?thesis
    by (simp add: New_def)
qed

theorem New_first_unreachable_witness:
  "New refuses_B [''A'', ''B'', ''C''] empty_world =
     (Returns (None, Some (ConnectFailed 1 (Foreign ''refused''))),
      \<lparr>fresh = 1, live = [Pool 0 ''A''], log = [EvNew ''A'', EvNew ''B'']\<rparr>)"
  using New_first_unreachable
      [of 1 "[''A'', ''B'', ''C'']" refuses_B "Foreign ''refused''" empty_world]
  by (simp add: refuses_B_def empty_world_def less_Suc_eq)

text \<open>
  C7.  When \<open>New\<close> fails at the second of two targets, the pool it opened for the
  first one is not closed: after the error has been returned that pool is still among
  the open pools, and \<open>Close\<close> was called on no pool.
\<close>

theorem New_partial_failure_leaves_pool_open:
  "New refuses_B [''A'', ''B''] empty_world =
     (Returns (None, Some (ConnectFailed 1 (Foreign ''refused''))),
      \<lparr>fresh = 1, live = [Pool 0 ''A''], log = [EvNew ''A'', EvNew ''B'']\<rparr>)"
  by (simp add: New_def pgxpool_New_def refuses_B_def empty_world_def)

section \<open>Health check and shutdown\<close>

lemma Ping_loop_all_healthy:
  assumes "\<forall>q \<in> set ps. ping_error e q = None"
  shows "Ping_loop e (map Some ps) w = (Returns None, w\<lparr>log := log w @ map EvPing ps\<rparr>)"
  using assms
proof (induction ps arbitrary: w)
  case Nil
  then show ?case by simp
next
  case (Cons q ps)
  then show ?case by (simp add: pool_Ping_def)
qed

lemma Ping_loop_first_failure:
  assumes "p < length ps"
    and "ping_error e (ps ! p) = Some err"
    and "\<forall>j < p. ping_error e (ps ! j) = None"
  shows "Ping_loop e (map Some ps) w =
     (Returns (Some err), w\<lparr>log := log w @ map EvPing (take (Suc p) ps)\<rparr>)"
  using assms
proof (induction ps arbitrary: w p)
  case Nil
  then show ?case by simp
next
  case (Cons q ps)
  show ?case
  proof (cases p)
    case 0
    with Cons.prems show ?thesis by (simp add: pool_Ping_def)
  next
    case (Suc r)
    from Cons.prems Suc have healthy: "ping_error e q = None"
      and r: "r < length ps" and fail: "ping_error e (ps ! r) = Some err"
      by auto
    have before: "\<forall>j < r. ping_error e (ps ! j) = None"
    proof (intro allI impI)
      fix j assume "j < r"
      then have "Suc j < p" using Suc by simp
      with Cons.prems(3) have "ping_error e ((q # ps) ! Suc j) = None" by blast
      then show "ping_error e (ps ! j) = None" by simp
    qed
    show ?thesis
      using healthy Suc Cons.IH [OF r fail before]
      by (simp add: pool_Ping_def)
  qed
qed

text \<open>
  C8, as the code has it.  On a manager whose shards are the pools \<open>ps\<close>: when every
  pool answers the ping, \<open>Ping\<close> returns no error, having pinged every shard once, in
  order; when the pool at position \<open>p\<close> is the first whose ping fails, with error
  \<open>err\<close>, \<open>Ping\<close> returns \<open>err\<close> itself, unchanged, having pinged the shards
  \<open>0, ..., p\<close> in order and no later one.
\<close>

theorem Ping_returns_first_failure_unchanged:
  assumes "shards m = map Some ps"
  shows "((\<forall>q \<in> set ps. ping_error e q = None) \<longrightarrow>
            Ping e m w = (Returns None, w\<lparr>log := log w @ map EvPing ps\<rparr>))
       \<and> (p < length ps \<and> ping_error e (ps ! p) = Some err
            \<and> (\<forall>j < p. ping_error e (ps ! j) = None) \<longrightarrow>
            Ping e m w =
              (Returns (Some err), w\<lparr>log := log w @ map EvPing (take (Suc p) ps)\<rparr>))"
  using assms by (simp add: Ping_def Ping_loop_all_healthy Ping_loop_first_failure)

theorem Ping_returns_first_failure_unchanged_witness:
  "Ping refuses_B two_shards empty_world =
     (Returns None,
      \<lparr>fresh = 0, live = [], log = [EvPing (Pool 0 ''A''), EvPing (Pool 1 ''C'')]\<rparr>)
   \<and> Ping ping_fails_second two_shards empty_world =
     (Returns (Some (Foreign ''timeout'')),
      \<lparr>fresh = 0, live = [], log = [EvPing (Pool 0 ''A''), EvPing (Pool 1 ''C'')]\<rparr>)
   \<and> Ping ping_fails_first two_shards empty_world =
     (Returns (Some (Foreign ''timeout'')),
      \<lparr>fresh = 0, live = [], log = [EvPing (Pool 0 ''A'')]\<rparr>)"
  using Ping_returns_first_failure_unchanged
      [of two_shards "[Pool 0 ''A'', Pool 1 ''C'']" refuses_B empty_world 0 "Foreign ''x''"]
    Ping_returns_first_failure_unchanged
      [of two_shards "[Pool 0 ''A'', Pool 1 ''C'']" ping_fails_second empty_world 1
          "Foreign ''timeout''"]
    Ping_returns_first_failure_unchanged
      [of two_shards "[Pool 0 ''A'', Pool 1 ''C'']" ping_fails_first empty_world 0
          "Foreign ''timeout''"]
  by (simp add: two_shards_def refuses_B_def ping_fails_first_def ping_fails_second_def
      empty_world_def)

text \<open>
  C8 as stated fails: the error \<open>Ping\<close> returns does not tell which shard failed.  The
  same manager returns the same error when its first shard is the one that fails and
  when its second shard is.
\<close>

theorem Ping_error_does_not_name_the_shard:
  "fst (Ping ping_fails_first two_shards empty_world) = Returns (Some (Foreign ''timeout''))
   \<and> fst (Ping ping_fails_second two_shards empty_world) = Returns (Some (Foreign ''timeout''))"
  by (simp add: Ping_def pool_Ping_def two_shards_def ping_fails_first_def
      ping_fails_second_def)

text \<open>\<open>Close\<close> closes every shard, in order, and returns no error.\<close>

lemma Close_loop_all:
  "Close_loop (map Some ps) w = (Returns None, foldl (\<lambda>w p. pool_Close p w) w ps)"
  by (induction ps arbitrary: w) simp_all

lemma Close_example:
  "Close two_shards \<lparr>fresh = 2, live = [Pool 0 ''A'', Pool 1 ''C''], log = []\<rparr> =
     (Returns None,
      \<lparr>fresh = 2, live = [], log = [EvClose (Pool 0 ''A''), EvClose (Pool 1 ''C'')]\<rparr>)"
  by (simp add: Close_def two_shards_def pool_Close_def)

section \<open>Locking of the strategy field\<close>

text \<open>
  C10.  \<open>SetShardIndexFunc\<close>, \<open>Shards\<close>, \<open>Ping\<close> and \<open>Close\<close> access the fields of the
  manager only while they hold \<open>mu\<close>; \<open>Shard\<close> does not.  With one goroutine in
  \<open>SetShardIndexFunc\<close> and one in \<open>Shard\<close>, the schedule "the first locks, then the
  second reads \<open>shardIndexFunc\<close>" runs: the lookup reads the strategy while the
  replacement holds the lock and is about to write it.  The same schedule against
  \<open>Shards\<close> is blocked at its \<open>Lock\<close>.
\<close>

theorem Shard_reads_strategy_without_lock:
  "guarded False SetShardIndexFunc_actions \<and> guarded False Shards_actions
   \<and> guarded False Ping_actions \<and> guarded False Close_actions
   \<and> \<not> guarded False Shard_actions
   \<and> run [0, 1] (None, [SetShardIndexFunc_actions, Shard_actions]) =
       Some (Some 0, [[Write F_shardIndexFunc, Unlock],
                      [Read F_numShards, Read F_shards, Read F_shards]])
   \<and> run [0, 1] (None, [SetShardIndexFunc_actions, Shards_actions]) = None"
  by (simp add: SetShardIndexFunc_actions_def Shards_actions_def Ping_actions_def
      Close_actions_def Shard_actions_def)

end
